theory Spec2Isabelle
  imports Main "HOL-Library.Word"
begin

unbundle bit_operations_syntax

section \<open>Values of the chess library used by BessBoard.py\<close>

text \<open>
  \<^verbatim>\<open>chess.Square\<close> and \<^verbatim>\<open>chess.Bitboard\<close> are Python integers; a square is an index
  into \<^verbatim>\<open>chess.SQUARE_NAMES\<close>, a bitboard has one bit per square.
  \<^verbatim>\<open>chess.PieceType\<close> is the enumeration \<^verbatim>\<open>PAWN = 1, ..., KING = 6\<close>: all six values are
  non-zero, hence truthy.
\<close>

type_synonym Square = int

type_synonym Bitboard = "64 word"

datatype PieceType = PAWN | KNIGHT | BISHOP | ROOK | QUEEN | KING

text \<open>\<^verbatim>\<open>chess.PIECE_TYPES = [PAWN, KNIGHT, BISHOP, ROOK, QUEEN, KING]\<close>.\<close>

definition PIECE_TYPES :: "PieceType list" where
  "PIECE_TYPES = [PAWN, KNIGHT, BISHOP, ROOK, QUEEN, KING]"

text \<open>
  \<^verbatim>\<open>chess.PIECE_SYMBOLS = [None, "p", "n", "b", "r", "q", "k"]\<close>; the piece type is the
  index of its symbol.
\<close>

definition PIECE_SYMBOLS :: "string option list" where
  "PIECE_SYMBOLS = [None, Some ''p'', Some ''n'', Some ''b'', Some ''r'', Some ''q'', Some ''k'']"

fun piece_type_of_int :: "nat \<Rightarrow> PieceType option" where
  "piece_type_of_int n =
     (if n = 1 then Some PAWN else if n = 2 then Some KNIGHT else if n = 3 then Some BISHOP
      else if n = 4 then Some ROOK else if n = 5 then Some QUEEN else if n = 6 then Some KING
      else None)"

fun piece_symbol :: "PieceType \<Rightarrow> string" where
  "piece_symbol PAWN = ''p''"
| "piece_symbol KNIGHT = ''n''"
| "piece_symbol BISHOP = ''b''"
| "piece_symbol ROOK = ''r''"
| "piece_symbol QUEEN = ''q''"
| "piece_symbol KING = ''k''"

text \<open>
  \<^verbatim>\<open>chess.SQUARE_NAMES = [f + r for r in RANK_NAMES for f in FILE_NAMES]\<close>:
  \<^verbatim>\<open>a1, b1, ..., h1, a2, ..., h8\<close>, so that square \<open>8 * rank + file\<close> has its name at
  that index.
\<close>

definition FILE_NAMES :: string where
  "FILE_NAMES = ''abcdefgh''"

definition RANK_NAMES :: string where
  "RANK_NAMES = ''12345678''"

definition SQUARE_NAMES :: "string list" where
  "SQUARE_NAMES = concat (map (\<lambda>r. map (\<lambda>f. [f, r]) FILE_NAMES) RANK_NAMES)"

text \<open>
  The exceptions the module can raise: \<^verbatim>\<open>chess.InvalidMoveError\<close> (raised explicitly by
  \<^verbatim>\<open>from_uci\<close>), and Python's own \<^verbatim>\<open>IndexError\<close> (an index out of range),
  \<^verbatim>\<open>AttributeError\<close> (an attribute an object does not have) and \<^verbatim>\<open>TypeError\<close> (a list
  indexed by \<^verbatim>\<open>None\<close>).
\<close>

datatype error = InvalidMoveError | IndexError | AttributeError | TypeError

text \<open>\<^verbatim>\<open>list.index(x)\<close>: the first position of \<open>x\<close>, or \<^verbatim>\<open>ValueError\<close> (here \<open>None\<close>).\<close>

fun list_index :: "'a list \<Rightarrow> 'a \<Rightarrow> nat option" where
  "list_index [] x = None"
| "list_index (y # ys) x =
     (if y = x then Some 0 else map_option Suc (list_index ys x))"

text \<open>\<^verbatim>\<open>s[i]\<close> for a literal index \<open>i \<ge> 0\<close>: the one-character string, or \<^verbatim>\<open>IndexError\<close>.\<close>

definition str_getitem :: "string \<Rightarrow> nat \<Rightarrow> error + string" where
  "str_getitem s i = (if i < length s then Inr [s ! i] else Inl IndexError)"

text \<open>\<^verbatim>\<open>s[i:j]\<close> for literal \<open>0 \<le> i \<le> j\<close>: slicing never raises.\<close>

definition str_slice :: "string \<Rightarrow> nat \<Rightarrow> nat \<Rightarrow> string" where
  "str_slice s i j = take (j - i) (drop i s)"

section \<open>Moves\<close>

text \<open>
  \<^verbatim>\<open>chess.Move\<close> has the fields \<^verbatim>\<open>from_square, to_square, promotion, drop\<close>. The data class
  \<^verbatim>\<open>BessMove\<close> has the same four and \<^verbatim>\<open>ban_piece\<close>; the library reads a move through its
  attributes only, so a \<^verbatim>\<open>BessMove\<close> is modelled as an extension of the record of
  \<^verbatim>\<open>chess.Move\<close>. \<^verbatim>\<open>ban_piece\<close> is annotated \<^verbatim>\<open>chess.PieceType\<close>, but \<^verbatim>\<open>null()\<close> stores
  \<^verbatim>\<open>None\<close> there, hence the option. The field \<^verbatim>\<open>drop\<close> is \<open>drop_piece\<close> here.
\<close>

record Move =
  from_square :: Square
  to_square :: Square
  promotion :: "PieceType option"
  drop_piece :: "PieceType option"

record BessMove = Move +
  ban_piece :: "PieceType option"

text \<open>\<^verbatim>\<open>BessMove(from_square, to_square, ban_piece, promotion=None, drop=None)\<close>.\<close>

definition mk_BessMove :: "Square \<Rightarrow> Square \<Rightarrow> PieceType option \<Rightarrow> PieceType option \<Rightarrow> BessMove" where
  "mk_BessMove f t ban promo =
     \<lparr>from_square = f, to_square = t, promotion = promo, drop_piece = None, ban_piece = ban\<rparr>"

text \<open>\<^verbatim>\<open>null\<close> (lines 82-84): \<^verbatim>\<open>cls(0, 0, None)\<close>.\<close>

definition null :: BessMove where
  "null = mk_BessMove 0 0 None None"

text \<open>
  \<^verbatim>\<open>__bool__\<close> (lines 38-39):
  \<^verbatim>\<open>bool(self.from_square or self.to_square or self.promotion or self.ban_piece)\<close>.
  An integer is truthy when it is not 0, an optional piece type when it is not \<^verbatim>\<open>None\<close>.
\<close>

definition bool_BessMove :: "BessMove \<Rightarrow> bool" where
  "bool_BessMove self \<longleftrightarrow>
     from_square self \<noteq> 0 \<or> to_square self \<noteq> 0 \<or> promotion self \<noteq> None \<or> ban_piece self \<noteq> None"

text \<open>
  \<^verbatim>\<open>move\<close> (lines 47-48):
  \<^verbatim>\<open>chess.Move(self.from_square, self.to_square, promotion=self.promotion)\<close>.
\<close>

definition move :: "BessMove \<Rightarrow> Move" where
  "move self =
     \<lparr>from_square = from_square self, to_square = to_square self,
      promotion = promotion self, drop_piece = None\<rparr>"

text \<open>
  \<^verbatim>\<open>uci\<close> (lines 22-36) starts with \<^verbatim>\<open>if self.move.promotion:\<close>. \<^verbatim>\<open>move\<close> is a method
  of the class and is not called here, so \<^verbatim>\<open>self.move\<close> is the bound method object; a
  method object has no attribute \<^verbatim>\<open>promotion\<close>, and reading it raises
  \<^verbatim>\<open>AttributeError\<close>. The same holds for \<^verbatim>\<open>self.move.from_square\<close> and
  \<^verbatim>\<open>self.move.to_square\<close> in the branches.
\<close>

definition bound_method_getattr :: "(BessMove \<Rightarrow> Move) \<Rightarrow> string \<Rightarrow> error + 'a" where
  "bound_method_getattr meth name = Inl AttributeError"

text \<open>
  \<^verbatim>\<open>chess.SQUARE_NAMES[square]\<close>: the list has 64 entries, and Python counts an index from
  \<open>-64\<close> to \<open>-1\<close> from the end.
\<close>

definition square_name :: "error + Square \<Rightarrow> error + string" where
  "square_name sq =
     (case sq of
        Inl e \<Rightarrow> Inl e
      | Inr i \<Rightarrow>
          (if 0 \<le> i \<and> i < 64 then Inr (SQUARE_NAMES ! nat i)
           else if - 64 \<le> i \<and> i < 0 then Inr (SQUARE_NAMES ! nat (i + 64))
           else Inl IndexError))"

text \<open>
  \<^verbatim>\<open>chess.piece_symbol(piece_type)\<close> is \<^verbatim>\<open>PIECE_SYMBOLS[piece_type]\<close>; a list indexed by
  \<^verbatim>\<open>None\<close> raises \<^verbatim>\<open>TypeError\<close>.
\<close>

definition opt_piece_symbol :: "PieceType option \<Rightarrow> error + string" where
  "opt_piece_symbol p = (case p of None \<Rightarrow> Inl TypeError | Some t \<Rightarrow> Inr (piece_symbol t))"

text \<open>String concatenation of operands evaluated left to right; the first failure wins.\<close>

fun str_concat :: "(error + string) list \<Rightarrow> error + string" where
  "str_concat [] = Inr []"
| "str_concat (Inl e # xs) = Inl e"
| "str_concat (Inr x # xs) = (case str_concat xs of Inl e \<Rightarrow> Inl e | Inr r \<Rightarrow> Inr (x @ r))"

definition uci :: "BessMove \<Rightarrow> error + string" where
  "uci self =
     (case (bound_method_getattr move ''promotion'' :: error + PieceType option) of
        Inl e \<Rightarrow> Inl e
      | Inr promo \<Rightarrow>
          (if promo \<noteq> None then
             str_concat
               [square_name (bound_method_getattr move ''from_square''),
                square_name (bound_method_getattr move ''to_square''),
                opt_piece_symbol promo, Inr '':'', opt_piece_symbol (ban_piece self)]
           else if bool_BessMove self then
             str_concat
               [square_name (bound_method_getattr move ''from_square''),
                square_name (bound_method_getattr move ''to_square''),
                Inr '':'', opt_piece_symbol (ban_piece self)]
           else Inr ''0000''))"

text \<open>
  \<^verbatim>\<open>from_uci\<close> (lines 50-80). The lookups of each branch run in the source's order inside
  \<^verbatim>\<open>try ... except ValueError\<close>: a failed \<^verbatim>\<open>index\<close> becomes \<^verbatim>\<open>InvalidMoveError\<close>, while the
  \<^verbatim>\<open>IndexError\<close> of \<^verbatim>\<open>uci[6]\<close> on a string of length 6 (and of \<^verbatim>\<open>uci[7]\<close> on one of
  length 7) is not a \<^verbatim>\<open>ValueError\<close> and leaves the function as it is.
\<close>

definition square_index :: "string \<Rightarrow> error + Square" where
  "square_index s =
     (case list_index SQUARE_NAMES s of None \<Rightarrow> Inl InvalidMoveError | Some i \<Rightarrow> Inr (int i))"

definition piece_index :: "error + string \<Rightarrow> error + PieceType option" where
  "piece_index c =
     (case c of
        Inl e \<Rightarrow> Inl e
      | Inr s \<Rightarrow>
          (case list_index PIECE_SYMBOLS (Some s) of
             None \<Rightarrow> Inl InvalidMoveError
           | Some i \<Rightarrow> Inr (piece_type_of_int i)))"

definition from_uci :: "string \<Rightarrow> error + BessMove" where
  "from_uci s =
     (if s = ''0000'' then Inr null
      else if length s = 6 \<and> str_getitem s 5 = Inr '':'' then
        (case square_index (str_slice s 0 2) of
           Inl e \<Rightarrow> Inl e
         | Inr from_sq \<Rightarrow>
             (case square_index (str_slice s 2 4) of
                Inl e \<Rightarrow> Inl e
              | Inr to_sq \<Rightarrow>
                  (case piece_index (str_getitem s 6) of
                     Inl e \<Rightarrow> Inl e
                   | Inr ban \<Rightarrow> Inr (mk_BessMove from_sq to_sq ban None))))
      else if length s = 7 \<and> str_getitem s 6 = Inr '':'' then
        (case square_index (str_slice s 0 2) of
           Inl e \<Rightarrow> Inl e
         | Inr from_sq \<Rightarrow>
             (case square_index (str_slice s 2 4) of
                Inl e \<Rightarrow> Inl e
              | Inr to_sq \<Rightarrow>
                  (case piece_index (str_getitem s 5) of
                     Inl e \<Rightarrow> Inl e
                   | Inr promo \<Rightarrow>
                       (case piece_index (str_getitem s 7) of
                          Inl e \<Rightarrow> Inl e
                        | Inr ban \<Rightarrow>
                            (if from_sq = to_sq then Inl InvalidMoveError
                             else Inr (mk_BessMove from_sq to_sq ban promo))))))
      else Inl InvalidMoveError)"

section \<open>Boards\<close>

text \<open>
  \<^verbatim>\<open>class BessBoard(chess.Board)\<close> (lines 87-130). The state of a \<^verbatim>\<open>BessBoard\<close> is the state
  it inherits from \<^verbatim>\<open>chess.Board\<close> together with the attribute \<^verbatim>\<open>current_ban\<close> the subclass
  adds (line 90, default \<^verbatim>\<open>None\<close>). Of the inherited attributes the module reads the six
  piece bitboards; everything else the library keeps (colours, turn, castling rights, the
  move stack, ...) is the opaque component \<open>other\<close>.
\<close>

record 'c Board =
  pawns :: Bitboard
  knights :: Bitboard
  bishops :: Bitboard
  rooks :: Bitboard
  queens :: Bitboard
  kings :: Bitboard
  other :: 'c

record 'c BessBoard =
  board :: "'c Board"
  current_ban :: "PieceType option"

text \<open>\<^verbatim>\<open>chess.BB_ALL = 0xffff_ffff_ffff_ffff\<close>, the default of both masks.\<close>

definition BB_ALL :: Bitboard where
  "BB_ALL = 0xffffffffffffffff"

text \<open>
  The library is not part of the module. Each inherited method the module calls through
  \<^verbatim>\<open>super()\<close>, or leaves to inheritance, is a parameter of the model:
  \<^item> a query receives \<^verbatim>\<open>self\<close>, the whole \<^verbatim>\<open>BessBoard\<close>;
  \<^item> a method that mutates the board receives \<^verbatim>\<open>self\<close> and returns the new inherited
    state: \<^verbatim>\<open>chess.Board\<close> has no attribute \<^verbatim>\<open>current_ban\<close>, so no inherited method
    assigns it.
  The generators of the library are finite; a generator is the list of what it yields.
\<close>

type_synonym 'c pseudo_legal_generator = "'c BessBoard \<Rightarrow> Bitboard \<Rightarrow> Bitboard \<Rightarrow> Move list"

type_synonym 'c board_mutator = "'c BessBoard \<Rightarrow> 'c Board"

text \<open>\<^verbatim>\<open>reset\<close> (lines 92-94) and \<^verbatim>\<open>clear\<close> (lines 96-98).\<close>

definition reset :: "'c board_mutator \<Rightarrow> 'c BessBoard \<Rightarrow> 'c BessBoard" where
  "reset super_reset self =
     (let self1 = self\<lparr>current_ban := None\<rparr>
      in self1\<lparr>board := super_reset self1\<rparr>)"

definition clear :: "'c board_mutator \<Rightarrow> 'c BessBoard \<Rightarrow> 'c BessBoard" where
  "clear super_clear self =
     (let self1 = self\<lparr>current_ban := None\<rparr>
      in self1\<lparr>board := super_clear self1\<rparr>)"

text \<open>
  \<^verbatim>\<open>generate_pseudo_legal_moves\<close> (lines 100-126). The six generators of the library are
  created first, one per piece bitboard; the chain then leaves out the one of the banned
  piece type (lines 109-122), and every chess move of the chain is yielded once per
  element of \<^verbatim>\<open>chess.PIECE_TYPES\<close> (lines 124-126).
\<close>

definition chained_moves ::
  "'c pseudo_legal_generator \<Rightarrow> 'c BessBoard \<Rightarrow> Bitboard \<Rightarrow> Bitboard \<Rightarrow> Move list" where
  "chained_moves super_generate self from_mask to_mask =
     (let pm = super_generate self (from_mask AND pawns (board self)) to_mask;
          nm = super_generate self (from_mask AND knights (board self)) to_mask;
          bm = super_generate self (from_mask AND bishops (board self)) to_mask;
          rm = super_generate self (from_mask AND rooks (board self)) to_mask;
          qm = super_generate self (from_mask AND queens (board self)) to_mask;
          km = super_generate self (from_mask AND kings (board self)) to_mask
      in case current_ban self of
           Some PAWN \<Rightarrow> nm @ bm @ rm @ qm @ km
         | Some KNIGHT \<Rightarrow> pm @ bm @ rm @ qm @ km
         | Some BISHOP \<Rightarrow> pm @ nm @ rm @ qm @ km
         | Some ROOK \<Rightarrow> pm @ nm @ bm @ qm @ km
         | Some QUEEN \<Rightarrow> pm @ nm @ bm @ rm @ km
         | Some KING \<Rightarrow> pm @ nm @ bm @ rm @ qm
         | None \<Rightarrow> pm @ nm @ bm @ rm @ qm @ km)"

definition generate_pseudo_legal_moves ::
  "'c pseudo_legal_generator \<Rightarrow> 'c BessBoard \<Rightarrow> Bitboard \<Rightarrow> Bitboard \<Rightarrow> BessMove list" where
  "generate_pseudo_legal_moves super_generate self from_mask to_mask =
     concat (map (\<lambda>mv. map (\<lambda>piece. mk_BessMove (from_square mv) (to_square mv) (Some piece) (promotion mv))
                           PIECE_TYPES)
                 (chained_moves super_generate self from_mask to_mask))"

text \<open>\<^verbatim>\<open>gives_check\<close> (lines 129-130): \<^verbatim>\<open>super().gives_check(move.move())\<close>.\<close>

definition gives_check :: "('c BessBoard \<Rightarrow> Move \<Rightarrow> bool) \<Rightarrow> 'c BessBoard \<Rightarrow> BessMove \<Rightarrow> bool" where
  "gives_check super_gives_check self m = super_gives_check self (move m)"

text \<open>
  The class defines no \<^verbatim>\<open>push\<close>: a move is applied by the inherited \<^verbatim>\<open>chess.Board.push\<close>,
  which is handed the \<^verbatim>\<open>BessMove\<close>. The library either raises (on a move it cannot
  apply) or returns with the inherited state updated; in both cases the attribute
  \<^verbatim>\<open>current_ban\<close> stays what it was, since in the whole module it is assigned at lines
  90, 93 and 97 only, each time \<^verbatim>\<open>None\<close>, and never from \<^verbatim>\<open>ban_piece\<close>.
\<close>

definition push ::
  "('c BessBoard \<Rightarrow> BessMove \<Rightarrow> 'e + 'c Board) \<Rightarrow> 'c BessBoard \<Rightarrow> BessMove \<Rightarrow> 'e + 'c BessBoard" where
  "push super_push self m =
     (case super_push self m of
        Inl e \<Rightarrow> Inl e
      | Inr b \<Rightarrow> Inr (self\<lparr>board := b\<rparr>))"

text \<open>The bitboard of the pieces of one type, read off the six attributes.\<close>

fun piece_mask :: "'c BessBoard \<Rightarrow> PieceType \<Rightarrow> Bitboard" where
  "piece_mask self PAWN = pawns (board self)"
| "piece_mask self KNIGHT = knights (board self)"
| "piece_mask self BISHOP = bishops (board self)"
| "piece_mask self ROOK = rooks (board self)"
| "piece_mask self QUEEN = queens (board self)"
| "piece_mask self KING = kings (board self)"

text \<open>
  The chess moves of the pieces whose type differs from \<^verbatim>\<open>current_ban\<close>, in the words of the
  specification: for every piece type that is not banned, what the library generates from
  the squares of that type.
\<close>

definition unbanned_chess_moves ::
  "'c pseudo_legal_generator \<Rightarrow> 'c BessBoard \<Rightarrow> Bitboard \<Rightarrow> Bitboard \<Rightarrow> Move list" where
  "unbanned_chess_moves super_generate self from_mask to_mask =
     concat (map (\<lambda>t. super_generate self (from_mask AND piece_mask self t) to_mask)
                 (filter (\<lambda>t. current_ban self \<noteq> Some t) PIECE_TYPES))"

subsection \<open>The start position and a test double of the library's generator\<close>

text \<open>
  The bitboards of the standard start position, and the board a fresh \<^verbatim>\<open>BessBoard()\<close>
  holds: its constructor runs \<^verbatim>\<open>reset\<close>, so \<^verbatim>\<open>current_ban\<close> is \<^verbatim>\<open>None\<close>.
\<close>

definition start_board :: "unit BessBoard" where
  "start_board =
     \<lparr>board = \<lparr>pawns = 0x00ff00000000ff00, knights = 0x4200000000000042,
                bishops = 0x2400000000000024, rooks = 0x8100000000000081,
                queens = 0x0800000000000008, kings = 0x1000000000000010, other = ()\<rparr>,
      current_ban = None\<rparr>"

definition mk_Move :: "Square \<Rightarrow> Square \<Rightarrow> Move" where
  "mk_Move f t = \<lparr>from_square = f, to_square = t, promotion = None, drop_piece = None\<rparr>"

text \<open>
  The 20 pseudo-legal chess moves of White in the start position: two knight moves from
  each of b1 and g1, a single and a double step of each pawn.
\<close>

definition opening_moves :: "Move list" where
  "opening_moves =
     [mk_Move 6 23, mk_Move 6 21, mk_Move 1 18, mk_Move 1 16] @
     map (\<lambda>f. mk_Move (8 + f) (16 + f)) [0, 1, 2, 3, 4, 5, 6, 7] @
     map (\<lambda>f. mk_Move (8 + f) (24 + f)) [0, 1, 2, 3, 4, 5, 6, 7]"

text \<open>
  A test double for the library's generator on the start position: the opening moves
  whose squares lie in the two masks.
\<close>

definition opening_generator :: "unit pseudo_legal_generator" where
  "opening_generator self from_mask to_mask =
     filter (\<lambda>mv. bit from_mask (nat (from_square mv)) \<and> bit to_mask (nat (to_square mv)))
            opening_moves"

text \<open>The start position under a ban of the knight.\<close>

definition knight_ban_board :: "unit BessBoard" where
  "knight_ban_board = start_board\<lparr>current_ban := Some KNIGHT\<rparr>"

subsection \<open>Legal moves and the outcome of a position\<close>

text \<open>
  Modelled from the spec: the module defines neither a legal-move generator nor an
  outcome of its own (\<^verbatim>\<open>LegalBessMoveGenerator.__iter__\<close>, lines 140-142, returns the
  inherited \<^verbatim>\<open>generate_legal_moves\<close> of the library). Section 4.3 of the specification:
  \<^verbatim>\<open>generate_legal\<close> is the subset of \<^verbatim>\<open>generate_pseudo\<close> whose underlying chess move leaves
  the mover's own king not attacked afterward, a test on the board-affecting component
  of the move only. The test itself (\<open>king_safe_after\<close>) belongs to the library.
\<close>

definition generate_legal ::
  "'c pseudo_legal_generator \<Rightarrow> ('c BessBoard \<Rightarrow> Move \<Rightarrow> bool) \<Rightarrow> 'c BessBoard \<Rightarrow> BessMove list" where
  "generate_legal super_generate king_safe_after self =
     filter (\<lambda>m. king_safe_after self (move m))
            (generate_pseudo_legal_moves super_generate self BB_ALL BB_ALL)"

text \<open>
  Modelled from the spec: section 4.4, \<^verbatim>\<open>outcome(position)\<close> is one of \<^verbatim>\<open>CONTINUE\<close>,
  \<^verbatim>\<open>CHECKMATE\<close> (of the side to move) and \<^verbatim>\<open>STALEMATE\<close>; \<^verbatim>\<open>check(position)\<close> is the
  library's answer whether the king of the side to move is attacked
  (\<open>is_king_attacked\<close>).
\<close>

datatype Outcome = CONTINUE | CHECKMATE | STALEMATE

definition outcome ::
  "'c pseudo_legal_generator \<Rightarrow> ('c BessBoard \<Rightarrow> Move \<Rightarrow> bool) \<Rightarrow> ('c BessBoard \<Rightarrow> bool) \<Rightarrow>
   'c BessBoard \<Rightarrow> Outcome" where
  "outcome super_generate king_safe_after is_king_attacked self =
     (if generate_legal super_generate king_safe_after self = [] then
        (if is_king_attacked self then CHECKMATE else STALEMATE)
      else CONTINUE)"

text \<open>
  A position for the stalemate-by-ban scenario: White, to move, has the king on e1 and a
  pawn on a4 that the black pawn on a5 blocks; Black has the king on e8. The banned piece
  type is the king. Its test double generates the five steps of the white king.
\<close>

definition blocked_board :: "unit BessBoard" where
  "blocked_board =
     \<lparr>board = \<lparr>pawns = 0x0000000101000000, knights = 0, bishops = 0, rooks = 0, queens = 0,
                kings = 0x1000000000000010, other = ()\<rparr>,
      current_ban = Some KING\<rparr>"

definition king_steps :: "Move list" where
  "king_steps = [mk_Move 4 3, mk_Move 4 5, mk_Move 4 11, mk_Move 4 12, mk_Move 4 13]"

definition king_steps_generator :: "unit pseudo_legal_generator" where
  "king_steps_generator self from_mask to_mask =
     filter (\<lambda>mv. bit from_mask (nat (from_square mv)) \<and> bit to_mask (nat (to_square mv)))
            king_steps"

section \<open>The move codec\<close>

lemma uci_raises: "uci m = Inl AttributeError"
  by (simp add: uci_def bound_method_getattr_def)

lemma from_uci_e2e4_ban_knight: "from_uci ''e2e4:n'' = Inl InvalidMoveError"
  by (simp add: from_uci_def str_getitem_def)

lemma from_uci_null: "from_uci ''0000'' = Inr null"
  by (simp add: from_uci_def)

lemma from_uci_returns_iff: "from_uci s = Inr m \<longleftrightarrow> s = ''0000'' \<and> m = null"
  by (auto simp: from_uci_def str_getitem_def piece_index_def split: sum.splits)

text \<open>
  C3 (round trip). In the code neither direction holds. \<^verbatim>\<open>uci\<close> raises
  \<^verbatim>\<open>AttributeError\<close> on every move, so decoding the encoding of the move e2-e4 that bans
  the knight does not give the move back; \<^verbatim>\<open>from_uci\<close> rejects the well-formed string
  \<^verbatim>\<open>e2e4:n\<close>, and on \<^verbatim>\<open>0000\<close>, the one string it accepts, the re-encoding raises.
\<close>

theorem round_trip_fails:
  "(case uci (mk_BessMove 12 28 (Some KNIGHT) None) of Inl e \<Rightarrow> Inl e | Inr s \<Rightarrow> from_uci s)
     = Inl AttributeError \<and>
   (case from_uci ''e2e4:n'' of Inl e \<Rightarrow> Inl e | Inr m \<Rightarrow> uci m) = Inl InvalidMoveError \<and>
   (case from_uci ''0000'' of Inl e \<Rightarrow> Inl e | Inr m \<Rightarrow> uci m) = Inl AttributeError"
  by (simp add: uci_raises from_uci_e2e4_ban_knight from_uci_null)

text \<open>
  C6 (what \<^verbatim>\<open>from_uci\<close> accepts and how it fails). The code returns a move on \<^verbatim>\<open>0000\<close>
  only. A string of 6 characters is parsed when its last character is the colon, and
  then \<^verbatim>\<open>uci[6]\<close> raises \<^verbatim>\<open>IndexError\<close>, which is not the invalid-notation error; the
  documented shapes \<^verbatim>\<open>e2e4:n\<close> and \<^verbatim>\<open>e7e8q:n\<close> are rejected.
\<close>

theorem from_uci_accepts_only_null:
  "(from_uci s = Inr m \<longleftrightarrow> s = ''0000'' \<and> m = null) \<and>
   from_uci ''e2e4q:'' = Inl IndexError \<and>
   from_uci ''e7e8qq:'' = Inl IndexError \<and>
   from_uci ''e2e4:n'' = Inl InvalidMoveError \<and>
   from_uci ''e7e8q:n'' = Inl InvalidMoveError"
proof -
  have "from_uci ''e2e4q:'' = Inl IndexError"
    by (simp add: from_uci_def str_getitem_def str_slice_def square_index_def SQUARE_NAMES_def
        FILE_NAMES_def RANK_NAMES_def piece_index_def)
  moreover have "from_uci ''e7e8qq:'' = Inl IndexError"
    by (simp add: from_uci_def str_getitem_def str_slice_def square_index_def SQUARE_NAMES_def
        FILE_NAMES_def RANK_NAMES_def piece_index_def PIECE_SYMBOLS_def)
  moreover have "from_uci ''e7e8q:n'' = Inl InvalidMoveError"
    by (simp add: from_uci_def str_getitem_def)
  ultimately show ?thesis
    using from_uci_returns_iff [of s m] from_uci_e2e4_ban_knight by simp
qed

text \<open>
  C7 (codec scenario). \<^verbatim>\<open>from_uci("e2e4:n")\<close> raises \<^verbatim>\<open>InvalidMoveError\<close> and \<^verbatim>\<open>uci\<close> of
  the move e2-e4 banning the knight raises \<^verbatim>\<open>AttributeError\<close>; \<^verbatim>\<open>from_uci("0000")\<close> is the
  null move, whose \<^verbatim>\<open>uci\<close> raises \<^verbatim>\<open>AttributeError\<close> as well.
\<close>

theorem codec_scenario:
  "from_uci ''e2e4:n'' = Inl InvalidMoveError \<and>
   uci (mk_BessMove 12 28 (Some KNIGHT) None) = Inl AttributeError \<and>
   from_uci ''0000'' = Inr null \<and>
   uci null = Inl AttributeError"
  by (simp add: uci_raises from_uci_e2e4_ban_knight from_uci_null)

text \<open>
  C10 (truthiness). A \<^verbatim>\<open>BessMove\<close> is falsy exactly when both squares are 0 and neither a
  promotion nor a ban piece is set; \<^verbatim>\<open>null()\<close> is falsy, and a move that carries a ban
  piece is truthy whatever its squares and promotion are.
\<close>

theorem bool_BessMove_falsy_iff:
  "(\<not> bool_BessMove m \<longleftrightarrow>
      from_square m = 0 \<and> to_square m = 0 \<and> promotion m = None \<and> ban_piece m = None) \<and>
   \<not> bool_BessMove null \<and>
   (\<forall>t promo. bool_BessMove (mk_BessMove 0 0 (Some t) promo))"
  by (auto simp: bool_BessMove_def null_def mk_BessMove_def)

theorem bool_BessMove_falsy_iff_witness:
  "\<not> bool_BessMove (mk_BessMove 0 0 None None) \<and>
   bool_BessMove (mk_BessMove 0 0 (Some PAWN) None) \<and>
   bool_BessMove (mk_BessMove 0 0 None (Some QUEEN)) \<and>
   bool_BessMove (mk_BessMove 0 28 None None)"
  using bool_BessMove_falsy_iff [of "mk_BessMove 0 0 None None"]
    bool_BessMove_falsy_iff [of "mk_BessMove 0 0 None (Some QUEEN)"]
    bool_BessMove_falsy_iff [of "mk_BessMove 0 28 None None"]
  by (simp add: mk_BessMove_def)

section \<open>The board\<close>

lemma length_ban_expansion:
  "length (concat (map (\<lambda>mv. map (f mv) PIECE_TYPES) mvs)) = 6 * length mvs"
  by (induction mvs) (simp_all add: PIECE_TYPES_def)

lemma length_generate_pseudo_legal_moves:
  "length (generate_pseudo_legal_moves g self from_mask to_mask)
     = 6 * length (chained_moves g self from_mask to_mask)"
  unfolding generate_pseudo_legal_moves_def by (rule length_ban_expansion)

lemma chained_moves_unbanned:
  "chained_moves g self from_mask to_mask = unbanned_chess_moves g self from_mask to_mask"
proof (cases "current_ban self")
  case None
  then show ?thesis
    by (simp add: chained_moves_def unbanned_chess_moves_def PIECE_TYPES_def)
next
  case (Some t)
  then show ?thesis
    by (cases t) (simp_all add: chained_moves_def unbanned_chess_moves_def PIECE_TYPES_def)
qed

text \<open>
  C1 (branching factor). The sequence \<^verbatim>\<open>generate_pseudo_legal_moves\<close> yields has 6 times
  the length of the chess moves the library generates for the piece types that differ
  from \<^verbatim>\<open>current_ban\<close>: each of them appears once with each of the six piece types as
  ban piece. With no ban, a board on which the library generates 20 chess moves
  over the six piece types, as on the start position, yields 120 moves.
\<close>

theorem generate_pseudo_legal_moves_branching:
  "generate_pseudo_legal_moves g self from_mask to_mask
     = concat (map (\<lambda>mv. map (\<lambda>t. mk_BessMove (from_square mv) (to_square mv) (Some t) (promotion mv))
                                [PAWN, KNIGHT, BISHOP, ROOK, QUEEN, KING])
                   (unbanned_chess_moves g self from_mask to_mask)) \<and>
   length (generate_pseudo_legal_moves g self from_mask to_mask)
     = 6 * length (unbanned_chess_moves g self from_mask to_mask) \<and>
   (current_ban self = None \<and>
    length (concat (map (\<lambda>t. g self (from_mask AND piece_mask self t) to_mask) PIECE_TYPES)) = 20
    \<longrightarrow> length (generate_pseudo_legal_moves g self from_mask to_mask) = 120)"
proof -
  have l: "length (generate_pseudo_legal_moves g self from_mask to_mask)
      = 6 * length (unbanned_chess_moves g self from_mask to_mask)"
    by (simp add: length_generate_pseudo_legal_moves chained_moves_unbanned)
  have "length (generate_pseudo_legal_moves g self from_mask to_mask) = 120"
    if "current_ban self = None"
      and "length (concat (map (\<lambda>t. g self (from_mask AND piece_mask self t) to_mask) PIECE_TYPES)) = 20"
    using that l by (simp add: unbanned_chess_moves_def)
  moreover have "generate_pseudo_legal_moves g self from_mask to_mask
      = concat (map (\<lambda>mv. map (\<lambda>t. mk_BessMove (from_square mv) (to_square mv) (Some t) (promotion mv))
                                 [PAWN, KNIGHT, BISHOP, ROOK, QUEEN, KING])
                    (unbanned_chess_moves g self from_mask to_mask))"
    by (simp add: generate_pseudo_legal_moves_def chained_moves_unbanned PIECE_TYPES_def)
  ultimately show ?thesis using l by blast
qed

lemma opening_generator_total:
  "length (concat (map (\<lambda>t. opening_generator start_board (BB_ALL AND piece_mask start_board t) BB_ALL)
                       PIECE_TYPES)) = 20"
  by (simp add: PIECE_TYPES_def opening_generator_def start_board_def BB_ALL_def
      opening_moves_def mk_Move_def)

theorem generate_pseudo_legal_moves_branching_witness:
  "current_ban start_board = None \<and>
   length (concat (map (\<lambda>t. opening_generator start_board (BB_ALL AND piece_mask start_board t) BB_ALL)
                       PIECE_TYPES)) = 20 \<and>
   length (generate_pseudo_legal_moves opening_generator start_board BB_ALL BB_ALL) = 120"
proof -
  have b: "current_ban start_board = None"
    by (simp add: start_board_def)
  show ?thesis
    using generate_pseudo_legal_moves_branching [of opening_generator start_board BB_ALL BB_ALL]
      b opening_generator_total by blast
qed

text \<open>
  C2 (ban propagation). The module carries the ban on every move (\<^verbatim>\<open>ban_piece\<close>, line
  16) and filters the generator on \<^verbatim>\<open>current_ban\<close> (lines 109-122), but nothing writes the
  one into the other. On the start position, where \<^verbatim>\<open>current_ban\<close> is \<^verbatim>\<open>None\<close>, pushing
  the move e2-e4 that bans the knight gives what the library's \<^verbatim>\<open>push\<close> gives, and where
  that is a position its \<^verbatim>\<open>current_ban\<close> is still \<^verbatim>\<open>None\<close>, not the knight.
\<close>

theorem push_drops_ban_piece:
  "ban_piece (mk_BessMove 12 28 (Some KNIGHT) None) = Some KNIGHT \<and>
   current_ban start_board = None \<and>
   push super_push start_board (mk_BessMove 12 28 (Some KNIGHT) None)
     = map_sum id (\<lambda>b. \<lparr>board = b, current_ban = None\<rparr>)
         (super_push start_board (mk_BessMove 12 28 (Some KNIGHT) None))"
  by (cases "super_push start_board (mk_BessMove 12 28 (Some KNIGHT) None)")
    (simp_all add: push_def start_board_def mk_BessMove_def)

text \<open>
  C8 (\<^verbatim>\<open>gives_check\<close> ignores the ban annotation). Two moves with the same squares and
  the same promotion give the same answer on every board.
\<close>

theorem gives_check_ignores_ban:
  "from_square m1 = from_square m2 \<Longrightarrow> to_square m1 = to_square m2 \<Longrightarrow>
   promotion m1 = promotion m2 \<Longrightarrow>
   gives_check super_gives_check self m1 = gives_check super_gives_check self m2"
  by (simp add: gives_check_def move_def)

theorem gives_check_ignores_ban_witness:
  "ban_piece (mk_BessMove 12 28 (Some KNIGHT) None) \<noteq> ban_piece (mk_BessMove 12 28 (Some QUEEN) None) \<and>
   (\<forall>super_gives_check.
      gives_check super_gives_check start_board (mk_BessMove 12 28 (Some KNIGHT) None)
        = gives_check super_gives_check start_board (mk_BessMove 12 28 (Some QUEEN) None))"
proof -
  have "gives_check g start_board (mk_BessMove 12 28 (Some KNIGHT) None)
      = gives_check g start_board (mk_BessMove 12 28 (Some QUEEN) None)" for g
    by (rule gives_check_ignores_ban) (simp_all add: mk_BessMove_def)
  then show ?thesis by (simp add: mk_BessMove_def)
qed

text \<open>
  C9 (\<^verbatim>\<open>reset\<close> and \<^verbatim>\<open>clear\<close>). Both leave the board without a ban, and with the inherited
  state the library's \<^verbatim>\<open>reset\<close>, respectively \<^verbatim>\<open>clear\<close>, produces.
\<close>

theorem reset_clear_no_ban:
  "current_ban (reset super_reset self) = None \<and>
   board (reset super_reset self) = super_reset (self\<lparr>current_ban := None\<rparr>) \<and>
   current_ban (clear super_clear self) = None \<and>
   board (clear super_clear self) = super_clear (self\<lparr>current_ban := None\<rparr>)"
  by (simp add: reset_def clear_def Let_def)

section \<open>Ban exclusion and the outcome\<close>

lemma move_of_ban_move:
  "move (mk_BessMove (from_square mv) (to_square mv) ban (promotion mv)) = mv\<lparr>drop_piece := None\<rparr>"
  by (simp add: move_def mk_BessMove_def)

lemma set_generate_pseudo_legal_moves:
  "set (generate_pseudo_legal_moves g self from_mask to_mask)
     = (\<lambda>(mv, t). mk_BessMove (from_square mv) (to_square mv) (Some t) (promotion mv))
         ` (set (unbanned_chess_moves g self from_mask to_mask) \<times> set PIECE_TYPES)"
  by (auto simp: generate_pseudo_legal_moves_def chained_moves_unbanned)

lemma unbanned_chess_moves_origin:
  assumes "mv \<in> set (unbanned_chess_moves g self from_mask to_mask)"
  obtains t where "current_ban self \<noteq> Some t"
    and "mv \<in> set (g self (from_mask AND piece_mask self t) to_mask)"
  using assms by (auto simp: unbanned_chess_moves_def)

text \<open>
  X1 (ban exclusion for the pseudo-legal generator). Let the library's generator respect its
  \<^verbatim>\<open>from_mask\<close>, and let no square of the banned type \<open>t\<close> carry a second piece type. Then
  no move of \<^verbatim>\<open>generate_pseudo_legal_moves\<close> starts on a square of the banned type.
\<close>

theorem generate_pseudo_legal_moves_excludes_ban:
  assumes ban: "current_ban self = Some t"
    and respects: "\<forall>fm tm. \<forall>mv \<in> set (g self fm tm). bit fm (nat (from_square mv))"
    and disjoint: "\<forall>t'. t' \<noteq> t \<longrightarrow> piece_mask self t' AND piece_mask self t = 0"
  shows "\<forall>m \<in> set (generate_pseudo_legal_moves g self from_mask to_mask).
           \<not> bit (piece_mask self t) (nat (from_square m))"
proof
  fix m
  assume "m \<in> set (generate_pseudo_legal_moves g self from_mask to_mask)"
  then obtain mv p where mv: "mv \<in> set (unbanned_chess_moves g self from_mask to_mask)"
    and m: "m = mk_BessMove (from_square mv) (to_square mv) (Some p) (promotion mv)"
    by (auto simp: set_generate_pseudo_legal_moves)
  from mv obtain t' where t': "current_ban self \<noteq> Some t'"
    and gen: "mv \<in> set (g self (from_mask AND piece_mask self t') to_mask)"
    by (rule unbanned_chess_moves_origin)
  from t' ban have ne: "t' \<noteq> t" by auto
  from respects gen have "bit (from_mask AND piece_mask self t') (nat (from_square mv))"
    by blast
  then have own: "bit (piece_mask self t') (nat (from_square mv))"
    by (simp add: bit_and_iff)
  show "\<not> bit (piece_mask self t) (nat (from_square m))"
  proof
    assume "bit (piece_mask self t) (nat (from_square m))"
    with m have "bit (piece_mask self t) (nat (from_square mv))"
      by (simp add: mk_BessMove_def)
    with own have "bit (piece_mask self t' AND piece_mask self t) (nat (from_square mv))"
      by (simp add: bit_and_iff)
    moreover from disjoint ne have "piece_mask self t' AND piece_mask self t = 0"
      by blast
    ultimately show False by simp
  qed
qed

lemma opening_generator_respects_from_mask:
  "\<forall>fm tm. \<forall>mv \<in> set (opening_generator self fm tm). bit fm (nat (from_square mv))"
  by (simp add: opening_generator_def)

lemma start_board_knights_disjoint:
  "\<forall>t'. t' \<noteq> KNIGHT \<longrightarrow> piece_mask knight_ban_board t' AND piece_mask knight_ban_board KNIGHT = 0"
proof (intro allI impI)
  fix t' :: PieceType
  assume "t' \<noteq> KNIGHT"
  then show "piece_mask knight_ban_board t' AND piece_mask knight_ban_board KNIGHT = 0"
    by (cases t') (simp_all add: knight_ban_board_def start_board_def)
qed

theorem generate_pseudo_legal_moves_excludes_ban_witness:
  "current_ban knight_ban_board = Some KNIGHT \<and>
   length (generate_pseudo_legal_moves opening_generator knight_ban_board BB_ALL BB_ALL) = 96 \<and>
   filter (\<lambda>m. bit (piece_mask knight_ban_board KNIGHT) (nat (from_square m)))
          (generate_pseudo_legal_moves opening_generator knight_ban_board BB_ALL BB_ALL) = []"
proof -
  have ban: "current_ban knight_ban_board = Some KNIGHT"
    by (simp add: knight_ban_board_def)
  have "length (chained_moves opening_generator knight_ban_board BB_ALL BB_ALL) = 16"
    by (simp add: chained_moves_def knight_ban_board_def opening_generator_def start_board_def
        BB_ALL_def opening_moves_def mk_Move_def)
  then have len: "length (generate_pseudo_legal_moves opening_generator knight_ban_board BB_ALL BB_ALL) = 96"
    by (simp add: length_generate_pseudo_legal_moves)
  from generate_pseudo_legal_moves_excludes_ban
    [OF ban opening_generator_respects_from_mask start_board_knights_disjoint,
      where from_mask = BB_ALL and to_mask = BB_ALL]
  have "filter (\<lambda>m. bit (piece_mask knight_ban_board KNIGHT) (nat (from_square m)))
          (generate_pseudo_legal_moves opening_generator knight_ban_board BB_ALL BB_ALL) = []"
    by (simp add: filter_empty_conv)
  with ban len show ?thesis by simp
qed

text \<open>
  C5 (outcome). With the outcome and the legal moves of the specification: the outcome is
  \<^verbatim>\<open>CHECKMATE\<close> exactly when the side to move is in check and has no legal move, and
  \<^verbatim>\<open>STALEMATE\<close> exactly when it is not in check and has no legal move. When the side to
  move is not in check, the king is banned, and no chess move of a piece of another type
  leaves the king safe, the outcome is \<^verbatim>\<open>STALEMATE\<close>, whatever moves the king has.
\<close>

theorem outcome_classifies:
  "(outcome g king_safe_after is_king_attacked self = CHECKMATE \<longleftrightarrow>
      is_king_attacked self \<and> generate_legal g king_safe_after self = []) \<and>
   (outcome g king_safe_after is_king_attacked self = STALEMATE \<longleftrightarrow>
      \<not> is_king_attacked self \<and> generate_legal g king_safe_after self = []) \<and>
   (\<not> is_king_attacked self \<and> current_ban self = Some KING \<and>
    (\<forall>t. t \<noteq> KING \<longrightarrow>
       (\<forall>mv \<in> set (g self (BB_ALL AND piece_mask self t) BB_ALL).
          \<not> king_safe_after self (mv\<lparr>drop_piece := None\<rparr>)))
    \<longrightarrow> outcome g king_safe_after is_king_attacked self = STALEMATE)"
proof -
  have "generate_legal g king_safe_after self = []"
    if ban: "current_ban self = Some KING"
      and unsafe: "\<forall>t. t \<noteq> KING \<longrightarrow>
        (\<forall>mv \<in> set (g self (BB_ALL AND piece_mask self t) BB_ALL).
           \<not> king_safe_after self (mv\<lparr>drop_piece := None\<rparr>))"
  proof -
    have "\<not> king_safe_after self (move m)"
      if "m \<in> set (generate_pseudo_legal_moves g self BB_ALL BB_ALL)" for m
    proof -
      from that obtain mv p where mv: "mv \<in> set (unbanned_chess_moves g self BB_ALL BB_ALL)"
        and m: "m = mk_BessMove (from_square mv) (to_square mv) (Some p) (promotion mv)"
        by (auto simp: set_generate_pseudo_legal_moves)
      from mv obtain t where t: "current_ban self \<noteq> Some t"
        and gen: "mv \<in> set (g self (BB_ALL AND piece_mask self t) BB_ALL)"
        by (rule unbanned_chess_moves_origin)
      from t ban have "t \<noteq> KING" by auto
      with unsafe gen have "\<not> king_safe_after self (mv\<lparr>drop_piece := None\<rparr>)" by blast
      with m show ?thesis by (simp add: move_of_ban_move)
    qed
    then show ?thesis by (simp add: generate_legal_def filter_empty_conv)
  qed
  then show ?thesis by (auto simp: outcome_def)
qed

lemma king_steps_generator_others:
  "\<forall>t. t \<noteq> KING \<longrightarrow>
     (\<forall>mv \<in> set (king_steps_generator blocked_board (BB_ALL AND piece_mask blocked_board t) BB_ALL).
        \<not> (\<lambda>self mv. True) blocked_board (mv\<lparr>drop_piece := None\<rparr>))"
proof (intro allI impI)
  fix t :: PieceType
  assume "t \<noteq> KING"
  then have "king_steps_generator blocked_board (BB_ALL AND piece_mask blocked_board t) BB_ALL = []"
    by (cases t)
      (simp_all add: king_steps_generator_def blocked_board_def king_steps_def mk_Move_def BB_ALL_def)
  then show "\<forall>mv \<in> set (king_steps_generator blocked_board (BB_ALL AND piece_mask blocked_board t) BB_ALL).
      \<not> (\<lambda>self mv. True) blocked_board (mv\<lparr>drop_piece := None\<rparr>)"
    by simp
qed

theorem outcome_classifies_witness:
  "current_ban blocked_board = Some KING \<and>
   length (king_steps_generator blocked_board (BB_ALL AND piece_mask blocked_board KING) BB_ALL) = 5 \<and>
   generate_legal king_steps_generator (\<lambda>self mv. True) blocked_board = [] \<and>
   outcome king_steps_generator (\<lambda>self mv. True) (\<lambda>self. False) blocked_board = STALEMATE"
proof -
  have ban: "current_ban blocked_board = Some KING"
    by (simp add: blocked_board_def)
  have king: "length (king_steps_generator blocked_board (BB_ALL AND piece_mask blocked_board KING) BB_ALL) = 5"
    by (simp add: king_steps_generator_def blocked_board_def king_steps_def mk_Move_def BB_ALL_def)
  from outcome_classifies
    [of king_steps_generator "\<lambda>self mv. True" "\<lambda>self. False" blocked_board]
    ban king_steps_generator_others
  have "outcome king_steps_generator (\<lambda>self mv. True) (\<lambda>self. False) blocked_board = STALEMATE"
    by blast
  moreover from this outcome_classifies
    [of king_steps_generator "\<lambda>self mv. True" "\<lambda>self. False" blocked_board]
  have "generate_legal king_steps_generator (\<lambda>self mv. True) blocked_board = []"
    by blast
  ultimately show ?thesis using ban king by simp
qed

end
